theory Spec2Isabelle
  imports Main
begin

section \<open>Machine integers, errors and loops\<close>

text \<open>
  The summary arrays of \<^verbatim>\<open>succinct_tree.c\<close> hold \<^verbatim>\<open>int16_t\<close> values and the query path
  computes in \<^verbatim>\<open>int8_t\<close>. Values are modelled as \<open>int\<close>; every store into a variable of
  one of these types goes through the conversion below (two's complement wrap-around, as
  gcc and clang define the narrowing conversion).

  Index arithmetic (\<^verbatim>\<open>unsigned int\<close>, \<^verbatim>\<open>long\<close>) is modelled on \<open>nat\<close>; this is exact as long
  as the bit positions stay below \<open>2 ^ 32\<close>. The floating-point expressions
  \<^verbatim>\<open>ceil((double)n / s)\<close>, \<^verbatim>\<open>ceil(log(x)/log(k))\<close> and \<^verbatim>\<open>pow(k, x)\<close> are taken at their
  exact mathematical values.
\<close>

definition int16_t :: "int \<Rightarrow> int" where
  "int16_t x = (x + 32768) mod 65536 - 32768"

definition int8_t :: "int \<Rightarrow> int" where
  "int8_t x = (x + 128) mod 256 - 128"

text \<open>
  Outcomes other than a normal return. \<open>InputTooSmall\<close> is the \<^verbatim>\<open>exit(0)\<close> of
  \<^verbatim>\<open>st_create\<close>; \<open>ExitFailure\<close> is the \<^verbatim>\<open>exit(EXIT_FAILURE)\<close> of \<^verbatim>\<open>fwd_search\<close>.
  The other three are the places where the C program has no defined behaviour: an
  access outside an allocated array or outside the bit sequence, a shift by at least
  the width of the shifted word, and the end of a non-void function reached without a
  \<^verbatim>\<open>return\<close>.
\<close>

datatype error = InputTooSmall | OutOfBounds | UndefinedShift | ExitFailure | NoReturnValue

definition and_then :: "error + 'a \<Rightarrow> ('a \<Rightarrow> error + 'b) \<Rightarrow> error + 'b" where
  "and_then m f = (case m of Inl e \<Rightarrow> Inl e | Inr x \<Rightarrow> f x)"

text \<open>A counted loop: the body runs for each index in turn and the first error stops it.\<close>

fun for_loop :: "nat list \<Rightarrow> (nat \<Rightarrow> 'a \<Rightarrow> error + 'a) \<Rightarrow> 'a \<Rightarrow> error + 'a" where
  "for_loop [] body x = Inr x"
| "for_loop (i # is) body x = and_then (body i x) (for_loop is body)"

text \<open>Reads and writes of a heap array of \<^verbatim>\<open>calloc\<close>ed \<^verbatim>\<open>int16_t\<close> cells.\<close>

definition rd :: "int list \<Rightarrow> nat \<Rightarrow> error + int" where
  "rd a i = (if i < length a then Inr (a ! i) else Inl OutOfBounds)"

definition wr :: "int list \<Rightarrow> nat \<Rightarrow> int \<Rightarrow> error + int list" where
  "wr a i v = (if i < length a then Inr (a[i := int16_t v]) else Inl OutOfBounds)"

section \<open>The bit sequence\<close>

text \<open>
  Modelled from the spec: \<^verbatim>\<open>bit_array.h\<close> is not part of the sources. A \<^verbatim>\<open>BIT_ARRAY\<close> is a
  read-only bit vector of a given length; \<^verbatim>\<open>bit_array_get_bit(B, i)\<close> returns bit \<open>i\<close>
  as 0 or 1 for \<open>i\<close> in \<open>[0, n)\<close>. Bit 1 is an opening parenthesis.
\<close>

record BIT_ARRAY =
  num_of_bits :: nat
  bit_at :: "nat \<Rightarrow> bool"

definition bit_array_get_bit :: "BIT_ARRAY \<Rightarrow> nat \<Rightarrow> error + int" where
  "bit_array_get_bit B i =
     (if i < num_of_bits B then Inr (if bit_at B i then 1 else 0) else Inl OutOfBounds)"

section \<open>Construction: \<^verbatim>\<open>st_create\<close>\<close>

definition s :: nat where "s = 256"

definition k :: nat where "k = 2"

text \<open>The global arrays and the height of the min-max tree.\<close>

record rmm =
  e_prime :: "int list"
  m_prime :: "int list"
  M_prime :: "int list"
  n_prime :: "int list"
  heigh :: nat

text \<open>\<open>ceil_div a b\<close> is \<^verbatim>\<open>ceil((double)a / b)\<close>; \<open>ceil_log x\<close> is \<^verbatim>\<open>ceil(log(x)/log(k))\<close>.\<close>

definition ceil_div :: "nat \<Rightarrow> nat \<Rightarrow> nat" where
  "ceil_div a b = (a + b - 1) div b"

fun ceil_log :: "nat \<Rightarrow> nat" where
  "ceil_log x = (if x \<le> 1 then 0 else Suc (ceil_log ((x + 1) div 2)))"

declare ceil_log.simps [simp del]

subsection \<open>Step 2.1: every thread summarises its chunks\<close>

text \<open>
  One iteration of the loop over the symbols of a chunk. The state is
  \<open>(min, max, partial_excess, num_mins)\<close>.
\<close>

fun symbol_step ::
  "BIT_ARRAY \<Rightarrow> nat \<Rightarrow> nat \<Rightarrow> int \<times> int \<times> int \<times> int \<Rightarrow> error + int \<times> int \<times> int \<times> int" where
  "symbol_step B llimit symbol (mn, mx, partial_excess, num_mins) =
     and_then (bit_array_get_bit B symbol) (\<lambda>b.
       let pe = int16_t (if b = 0 then partial_excess - 1 else partial_excess + 1) in
       if symbol = llimit then Inr (pe, pe, pe, 1)
       else Inr (if pe < mn then pe else mn,
                 if pe > mx then pe else mx,
                 pe,
                 if pe < mn then 1 else if pe = mn then int16_t (num_mins + 1) else num_mins))"

definition symbol_loop ::
  "BIT_ARRAY \<Rightarrow> nat \<Rightarrow> nat \<Rightarrow> int \<times> int \<times> int \<times> int \<Rightarrow> error + int \<times> int \<times> int \<times> int" where
  "symbol_loop B llimit ulimit = for_loop [llimit..<ulimit] (symbol_step B llimit)"

text \<open>
  One iteration of the loop over the chunks of a thread. The state is
  \<open>((min, max, partial_excess), arrays)\<close>: the three locals are declared outside the chunk
  loop and roll forward.
\<close>

fun chunk_step ::
  "BIT_ARRAY \<Rightarrow> nat \<Rightarrow> nat \<Rightarrow> nat \<Rightarrow> nat \<Rightarrow> nat \<Rightarrow> nat \<Rightarrow> nat \<Rightarrow> nat
     \<Rightarrow> (int \<times> int \<times> int) \<times> rmm \<Rightarrow> error + (int \<times> int \<times> int) \<times> rmm" where
  "chunk_step B n num_chunks num_threads chunks_per_thread offset thread chunk_limit chunk
       ((mn, mx, partial_excess), st) =
      (let llimit = thread * chunks_per_thread * s + s * chunk;
           ulimit = (if thread = num_threads - 1 \<and> chunk = chunk_limit - 1
                        \<and> n mod (num_chunks * s) \<noteq> 0
                     then n
                     else if n < s then n
                     else thread * chunks_per_thread * s + s * (chunk + 1))
       in and_then (symbol_loop B llimit ulimit (mn, mx, partial_excess, 1))
            (\<lambda>(mn', mx', pe', num_mins).
          and_then (wr (e_prime st) (thread * chunks_per_thread + chunk) pe') (\<lambda>e.
          and_then (wr (m_prime st) (offset + thread * chunks_per_thread + chunk) mn') (\<lambda>m.
          and_then (wr (M_prime st) (offset + thread * chunks_per_thread + chunk) mx') (\<lambda>M.
          and_then (wr (n_prime st) (offset + thread * chunks_per_thread + chunk) num_mins) (\<lambda>c.
            Inr ((mn', mx', pe'),
                 st\<lparr>e_prime := e, m_prime := m, M_prime := M, n_prime := c\<rparr>)))))))"

text \<open>
  One iteration of the \<^verbatim>\<open>cilk_for\<close> over the threads. The iterations write disjoint
  cells and read only \<open>B\<close>, so they are run one after the other.
\<close>

definition thread_step ::
  "BIT_ARRAY \<Rightarrow> nat \<Rightarrow> nat \<Rightarrow> nat \<Rightarrow> nat \<Rightarrow> nat \<Rightarrow> nat \<Rightarrow> rmm \<Rightarrow> error + rmm" where
  "thread_step B n num_chunks num_threads chunks_per_thread offset thread st =
     (let chunk_limit =
            (if thread = num_threads - 1 \<and> num_chunks mod chunks_per_thread \<noteq> 0
             then num_chunks mod chunks_per_thread else chunks_per_thread)
      in and_then
           (for_loop [0..<chunk_limit]
              (chunk_step B n num_chunks num_threads chunks_per_thread offset thread chunk_limit)
              ((0, 0, 0), st))
           (\<lambda>(locals, st'). Inr st'))"

subsection \<open>Step 2.2: the final prefix values\<close>

text \<open>The sequential loop over the last chunk of the threads \<open>1 .. num_threads - 2\<close>.\<close>

definition boundary_step :: "nat \<Rightarrow> nat \<Rightarrow> rmm \<Rightarrow> error + rmm" where
  "boundary_step chunks_per_thread thread st =
     and_then (rd (e_prime st) (thread * chunks_per_thread + chunks_per_thread - 1)) (\<lambda>cur.
     and_then (rd (e_prime st) ((thread - 1) * chunks_per_thread + chunks_per_thread - 1)) (\<lambda>prev.
     and_then (wr (e_prime st) (thread * chunks_per_thread + chunks_per_thread - 1) (cur + prev)) (\<lambda>e.
       Inr (st\<lparr>e_prime := e\<rparr>))))"

text \<open>The body of the chunk loop of the second \<^verbatim>\<open>cilk_for\<close>.\<close>

definition broadcast_step :: "nat \<Rightarrow> nat \<Rightarrow> nat \<Rightarrow> nat \<Rightarrow> nat \<Rightarrow> rmm \<Rightarrow> error + rmm" where
  "broadcast_step num_threads chunks_per_thread offset thread chunk st =
     (let prev = (thread - 1) * chunks_per_thread + chunks_per_thread - 1;
          cur = thread * chunks_per_thread + chunk
      in and_then
           (if thread = num_threads - 1 \<or> chunk < chunks_per_thread - 1
            then and_then (rd (e_prime st) cur) (\<lambda>x.
                 and_then (rd (e_prime st) prev) (\<lambda>d.
                 and_then (wr (e_prime st) cur (x + d)) (\<lambda>e. Inr (st\<lparr>e_prime := e\<rparr>))))
            else Inr st) (\<lambda>st1.
         and_then (rd (m_prime st1) (offset + cur)) (\<lambda>x.
         and_then (rd (e_prime st1) prev) (\<lambda>d.
         and_then (wr (m_prime st1) (offset + cur) (x + d)) (\<lambda>m.
         and_then (rd (M_prime st1) (offset + cur)) (\<lambda>y.
         and_then (rd (e_prime st1) prev) (\<lambda>d'.
         and_then (wr (M_prime st1) (offset + cur) (y + d')) (\<lambda>M.
           Inr (st1\<lparr>m_prime := m, M_prime := M\<rparr>)))))))))"

definition broadcast_thread :: "nat \<Rightarrow> nat \<Rightarrow> nat \<Rightarrow> nat \<Rightarrow> rmm \<Rightarrow> error + rmm" where
  "broadcast_thread num_threads chunks_per_thread offset thread =
     for_loop [0..<chunks_per_thread] (broadcast_step num_threads chunks_per_thread offset thread)"

subsection \<open>Step 2.3: the internal nodes\<close>

text \<open>
  The loop over the children of the node at \<open>pos\<close>: \<^verbatim>\<open>child\<close> runs from \<^verbatim>\<open>lchild\<close> while
  \<^verbatim>\<open>child <= rchild && child < n\<close>. \<open>init_count\<close> tells the two copies of the loop apart:
  the loop inside the subtrees copies \<^verbatim>\<open>n_prime[child]\<close> at the first child, the loop for
  the top of the tree does not.
\<close>

definition child_step :: "bool \<Rightarrow> nat \<Rightarrow> nat \<Rightarrow> nat \<Rightarrow> rmm \<Rightarrow> error + rmm" where
  "child_step init_count pos lchild child st =
     (if child = lchild then
        and_then (rd (m_prime st) child) (\<lambda>mc.
        and_then (wr (m_prime st) pos mc) (\<lambda>m.
        and_then (rd (M_prime st) child) (\<lambda>Mc.
        and_then (wr (M_prime st) pos Mc) (\<lambda>M.
          if init_count then
            and_then (rd (n_prime st) child) (\<lambda>nc.
            and_then (wr (n_prime st) pos nc) (\<lambda>c.
              Inr (st\<lparr>m_prime := m, M_prime := M, n_prime := c\<rparr>)))
          else Inr (st\<lparr>m_prime := m, M_prime := M\<rparr>)))))
      else
        and_then (rd (m_prime st) child) (\<lambda>mc.
        and_then (rd (m_prime st) pos) (\<lambda>mp.
        and_then
          (if mc < mp then
             and_then (wr (m_prime st) pos mc) (\<lambda>m.
             and_then (wr (n_prime st) pos 1) (\<lambda>c.
               Inr (st\<lparr>m_prime := m, n_prime := c\<rparr>)))
           else if mc = mp then
             and_then (rd (n_prime st) pos) (\<lambda>np.
             and_then (wr (n_prime st) pos (np + 1)) (\<lambda>c.
               Inr (st\<lparr>n_prime := c\<rparr>)))
           else Inr st) (\<lambda>st1.
        and_then (rd (M_prime st1) child) (\<lambda>Mc.
        and_then (rd (M_prime st1) pos) (\<lambda>Mp.
          if Mc > Mp then
            and_then (wr (M_prime st1) pos Mc) (\<lambda>M. Inr (st1\<lparr>M_prime := M\<rparr>))
          else Inr st1))))))"

definition node_fill :: "bool \<Rightarrow> nat \<Rightarrow> nat \<Rightarrow> rmm \<Rightarrow> error + rmm" where
  "node_fill init_count n pos =
     (let lchild = pos * k + 1; rchild = (pos + 1) * k
      in for_loop [lchild..<min (rchild + 1) n] (child_step init_count pos lchild))"

text \<open>The levels \<^verbatim>\<open>heigh-1\<close> down to \<^verbatim>\<open>p_level\<close> of one of the \<^verbatim>\<open>num_subtrees\<close> subtrees.\<close>

definition subtree_level :: "nat \<Rightarrow> nat \<Rightarrow> nat \<Rightarrow> nat \<Rightarrow> rmm \<Rightarrow> error + rmm" where
  "subtree_level n p_level subtree lvl =
     (let num_curr_nodes = k ^ (lvl - p_level)
      in for_loop [0..<num_curr_nodes]
           (\<lambda>node. node_fill True n (k ^ lvl - 1 + node + subtree * num_curr_nodes)))"

definition subtree_fill :: "nat \<Rightarrow> nat \<Rightarrow> nat \<Rightarrow> nat \<Rightarrow> rmm \<Rightarrow> error + rmm" where
  "subtree_fill n hgt p_level subtree =
     for_loop (rev [p_level..<hgt]) (subtree_level n p_level subtree)"

text \<open>The levels \<^verbatim>\<open>p_level-1\<close> down to 0, filled sequentially.\<close>

definition top_level :: "nat \<Rightarrow> nat \<Rightarrow> rmm \<Rightarrow> error + rmm" where
  "top_level n lvl =
     (let num_curr_nodes = k ^ lvl
      in for_loop [0..<num_curr_nodes]
           (\<lambda>node. node_fill False n ((k ^ lvl - 1) div (k - 1) + node)))"

subsection \<open>The whole construction\<close>

text \<open>
  The third argument of the functions below is the value of \<^verbatim>\<open>__cilkrts_get_nworkers()\<close>, at
  least 1. \<open>st_create_leaves\<close> is the part of \<^verbatim>\<open>st_create\<close> from the allocation of the arrays to
  the end of step 2.2: the pass of every thread over its chunks, the sequential pass over the
  last chunk of the threads, and the pass that adds the prefix values. It leaves \<^verbatim>\<open>e_prime\<close>
  and the leaves of the other arrays in their final state.
\<close>

definition st_create_leaves :: "BIT_ARRAY \<Rightarrow> nat \<Rightarrow> nat \<Rightarrow> error + rmm" where
  "st_create_leaves B n num_threads =
     (let num_chunks = ceil_div n s;
          hgt = ceil_log num_chunks;
          offset = (k ^ hgt - 1) div (k - 1);
          chunks_per_thread = ceil_div num_chunks num_threads;
          st0 = \<lparr>e_prime = replicate num_chunks 0,
                 m_prime = replicate (num_chunks + offset) 0,
                 M_prime = replicate (num_chunks + offset) 0,
                 n_prime = replicate (num_chunks + offset) 0,
                 heigh = hgt\<rparr>
      in and_then (for_loop [0..<num_threads]
                     (thread_step B n num_chunks num_threads chunks_per_thread offset) st0) (\<lambda>st1.
         and_then (for_loop [1..<num_threads - 1] (boundary_step chunks_per_thread) st1) (\<lambda>st2.
           for_loop [1..<num_threads]
             (broadcast_thread num_threads chunks_per_thread offset) st2)))"

text \<open>
  \<open>st_create_internal\<close> is step 2.3: the subtrees below the level \<^verbatim>\<open>p_level\<close>, then the levels
  above it. \<^verbatim>\<open>heigh\<close> is a global variable of the program, set before step 2.1.
\<close>

definition st_create_internal :: "nat \<Rightarrow> nat \<Rightarrow> rmm \<Rightarrow> error + rmm" where
  "st_create_internal n num_threads st3 =
     (let p_level = ceil_log num_threads;
          num_subtrees = k ^ p_level
      in and_then (for_loop [0..<num_subtrees] (subtree_fill n (heigh st3) p_level) st3) (\<lambda>st4.
           for_loop (rev [0..<p_level]) (top_level n) st4))"

text \<open>\<^verbatim>\<open>st_create\<close>: the size check, then the two parts. The result holds the arrays and \<^verbatim>\<open>heigh\<close>.\<close>

definition st_create :: "BIT_ARRAY \<Rightarrow> nat \<Rightarrow> nat \<Rightarrow> error + rmm" where
  "st_create B n num_threads =
     (if s \<ge> n then Inl InputTooSmall
      else and_then (st_create_leaves B n num_threads) (st_create_internal n num_threads))"

section \<open>Queries: \<^verbatim>\<open>leaves_check\<close>, \<^verbatim>\<open>fwd_search\<close> and \<^verbatim>\<open>find_close\<close>\<close>

subsection \<open>Lookup tables and word access\<close>

text \<open>
  Modelled from the spec: \<^verbatim>\<open>lookup_tables.h\<close> is not part of the sources. \<open>word_sum b\<close> is
  \<open>2 * popcount b - 8\<close>. \<open>near_fwd_pos\<close> has \<open>17 * 256\<close> entries; the entry at
  \<open>e * 256 + b\<close> is the first bit position of the byte \<open>b\<close>, from the least significant
  bit up, at which the running value that starts at \<open>e - 8\<close> reaches 0, and 8 when
  there is none. The running value moves as in the bit loops of \<^verbatim>\<open>leaves_check\<close>: down by
  one on a 1 bit and up by one on a 0 bit, which is the direction in which
  \<^verbatim>\<open>excess -= word_sum[..]\<close> moves it over a whole byte.
\<close>

definition byte_bit :: "nat \<Rightarrow> nat \<Rightarrow> bool" where
  "byte_bit b i = odd (b div 2 ^ i)"

definition word_sum :: "nat \<Rightarrow> int" where
  "word_sum b = 2 * int (length (filter (byte_bit b) [0..<8])) - 8"

fun near_scan :: "nat \<Rightarrow> nat list \<Rightarrow> int \<Rightarrow> int" where
  "near_scan b [] r = 8"
| "near_scan b (i # is) r =
     (let r' = r + (if byte_bit b i then - 1 else 1)
      in if r' = 0 then int i else near_scan b is r')"

definition near_fwd_pos :: "nat \<Rightarrow> int" where
  "near_fwd_pos idx = near_scan (idx mod 256) [0..<8] (int (idx div 256) - 8)"

text \<open>
  Modelled from the spec: the word array of a \<^verbatim>\<open>BIT_ARRAY\<close> (\<^verbatim>\<open>bit_array.h\<close> is not part of
  the sources). Word \<open>w\<close> holds the bits \<open>w * W .. w * W + W - 1\<close> of the sequence, the
  lowest position in the least significant bit, and zeros beyond the end of the
  sequence; \<open>W\<close> is the width of a word (32 or 64). \<open>get_byte W B j\<close> is the expression
  \<^verbatim>\<open>((*(B->words+(j>>5)))>>(j&0xFF))&0xFF\<close> of \<^verbatim>\<open>leaves_check\<close>.
\<close>

definition word_bit :: "nat \<Rightarrow> BIT_ARRAY \<Rightarrow> nat \<Rightarrow> nat \<Rightarrow> bool" where
  "word_bit W B w i = (i < W \<and> w * W + i < num_of_bits B \<and> bit_at B (w * W + i))"

definition get_byte :: "nat \<Rightarrow> BIT_ARRAY \<Rightarrow> nat \<Rightarrow> error + nat" where
  "get_byte W B j =
     (let w = j div 32; sh = j mod 256
      in if ceil_div (num_of_bits B) W \<le> w then Inl OutOfBounds
         else if W \<le> sh then Inl UndefinedShift
         else Inr (sum_list (map (\<lambda>i. if word_bit W B w (sh + i) then 2 ^ i else 0) [0..<8])))"

subsection \<open>\<^verbatim>\<open>leaves_check\<close>\<close>

text \<open>The result of one of the three loops: a position to return, or the running excess.\<close>

datatype scan = Found nat | NotFound int

fun bit_scan :: "BIT_ARRAY \<Rightarrow> nat list \<Rightarrow> int \<Rightarrow> error + scan" where
  "bit_scan B [] excess = Inr (NotFound excess)"
| "bit_scan B (j # js) excess =
     and_then (bit_array_get_bit B j) (\<lambda>b.
       let e = int8_t (excess + (1 - 2 * b))
       in if e = 0 then Inr (Found j) else bit_scan B js e)"

fun byte_scan :: "nat \<Rightarrow> BIT_ARRAY \<Rightarrow> nat list \<Rightarrow> int \<Rightarrow> error + scan" where
  "byte_scan W B [] excess = Inr (NotFound excess)"
| "byte_scan W B (j # js) excess =
     and_then (get_byte W B j) (\<lambda>w.
       if 0 \<le> excess \<and> excess \<le> 16 \<and> near_fwd_pos (nat (excess * 256) + w) < 8
       then Inr (Found (j + nat (near_fwd_pos (nat (excess * 256) + w))))
       else byte_scan W B js (int8_t (excess - word_sum w)))"

text \<open>
  The three loops of \<^verbatim>\<open>leaves_check\<close>, one after the other. The result is the position that
  one of the loops returns, or the value of the local variable \<^verbatim>\<open>excess\<close> when the last loop
  has ended.
\<close>

definition leaves_scan :: "nat \<Rightarrow> BIT_ARRAY \<Rightarrow> nat \<Rightarrow> int \<Rightarrow> error + scan" where
  "leaves_scan W B i d =
     (let end = (i div s + 1) * s;
          llimit = ((i + 7) div 8) * 8;
          rlimit = (end div 8) * 8
      in and_then (bit_scan B [i + 1..<min end llimit] d) (\<lambda>r1.
           case r1 of Found j \<Rightarrow> Inr (Found j)
           | NotFound e1 \<Rightarrow>
               and_then (byte_scan W B (filter (\<lambda>j. (j - llimit) mod 8 = 0) [llimit..<rlimit])
                           (int8_t (if llimit = i then e1 + 9 else e1 + 8))) (\<lambda>r2.
                 case r2 of Found j \<Rightarrow> Inr (Found j)
                 | NotFound e2 \<Rightarrow> bit_scan B [max llimit rlimit..<end] (int8_t (e2 - 8)))))"

text \<open>\<^verbatim>\<open>leaves_check\<close> returns the position found, and \<^verbatim>\<open>i-1\<close> when the loops find none.\<close>

definition leaves_check :: "nat \<Rightarrow> BIT_ARRAY \<Rightarrow> nat \<Rightarrow> int \<Rightarrow> error + int" where
  "leaves_check W B i d =
     and_then (leaves_scan W B i d) (\<lambda>r.
       case r of Found j \<Rightarrow> Inr (int j) | NotFound e3 \<Rightarrow> Inr (int i - 1))"

subsection \<open>Navigation in the implicit tree\<close>

text \<open>
  Modelled from the spec: \<^verbatim>\<open>binary_trees.h\<close> is not part of the sources. The node at
  index 0 is the root, the children of \<open>v\<close> are \<open>v * k + 1 .. (v + 1) * k\<close>, and the
  leaves are the indices from \<open>(k ^ heigh - 1) div (k - 1)\<close> on.
\<close>

definition is_root :: "nat \<Rightarrow> bool" where
  "is_root v = (v = 0)"

definition parent :: "nat \<Rightarrow> nat" where
  "parent v = (v - 1) div k"

definition left_child :: "nat \<Rightarrow> nat" where
  "left_child v = v * k + 1"

definition right_sibling :: "nat \<Rightarrow> nat" where
  "right_sibling v = v + 1"

definition is_left_child :: "nat \<Rightarrow> bool" where
  "is_left_child v = (v = 2 * parent v + 1)"

definition is_leaf :: "rmm \<Rightarrow> nat \<Rightarrow> bool" where
  "is_leaf st v = (v \<ge> (k ^ heigh st - 1) div (k - 1))"

subsection \<open>\<^verbatim>\<open>fwd_search\<close>\<close>

text \<open>The seed of case 2: the \<^verbatim>\<open>int8_t\<close> sum of \<^verbatim>\<open>1-2*bit\<close> over a range of positions.\<close>

fun prev_excess_loop :: "BIT_ARRAY \<Rightarrow> nat list \<Rightarrow> int \<Rightarrow> error + int" where
  "prev_excess_loop B [] prev_excess = Inr prev_excess"
| "prev_excess_loop B (j # js) prev_excess =
     and_then (bit_array_get_bit B j) (\<lambda>b.
       prev_excess_loop B js (int8_t (prev_excess + (1 - 2 * b))))"

text \<open>
  The test \<^verbatim>\<open>m_prime[v] <= -excess-1 && -excess-1 <= M_prime[v]\<close>; the second array is
  read only when the first comparison holds.
\<close>

definition in_range :: "rmm \<Rightarrow> nat \<Rightarrow> int \<Rightarrow> error + bool" where
  "in_range st v excess =
     and_then (rd (m_prime st) v) (\<lambda>lo.
       if lo \<le> - excess - 1
       then and_then (rd (M_prime st) v) (\<lambda>hi. Inr (- excess - 1 \<le> hi))
       else Inr False)"

text \<open>The sibling loop of case 2; \<open>None\<close> means that the loop ended without a return.\<close>

fun sibling_scan :: "nat \<Rightarrow> BIT_ARRAY \<Rightarrow> rmm \<Rightarrow> nat \<Rightarrow> int \<Rightarrow> nat list \<Rightarrow> error + int option" where
  "sibling_scan W B st chunk excess [] = Inr None"
| "sibling_scan W B st chunk excess (j # js) =
     and_then (in_range st (chunk + j) excess) (\<lambda>hit.
       if hit then
         and_then (leaves_check W B (s * (chunk + j)) excess) (\<lambda>output.
           if output > int (s * (chunk + j)) then Inr (Some output)
           else sibling_scan W B st chunk excess js)
       else sibling_scan W B st chunk excess js)"

text \<open>Case 3, the way up: the result is the node at which the \<^verbatim>\<open>while\<close> loop stops.\<close>

function climb :: "rmm \<Rightarrow> int \<Rightarrow> nat \<Rightarrow> error + nat" where
  "climb st excess node =
     (if is_root node then Inr node
      else if is_left_child node then
        and_then (in_range st (right_sibling node) excess) (\<lambda>hit.
          if hit then Inr (right_sibling node)
          else climb st excess (parent (right_sibling node)))
      else climb st excess (parent node))"
  by pat_completeness auto
termination
  by (relation "measure (\<lambda>(st, excess, node). node)")
     (auto simp: is_root_def parent_def right_sibling_def k_def)

declare climb.simps [simp del]

text \<open>Case 3, the way down to a leaf.\<close>

function descend :: "rmm \<Rightarrow> int \<Rightarrow> nat \<Rightarrow> error + nat" where
  "descend st excess node =
     (if is_leaf st node then Inr node
      else
        and_then (in_range st (left_child node) excess) (\<lambda>hit.
          if hit then descend st excess (left_child node)
          else
            and_then (rd (m_prime st) (right_sibling (left_child node))) (\<lambda>lo.
              if lo > - excess - 1 then Inl ExitFailure
              else
                and_then (rd (M_prime st) (right_sibling (left_child node))) (\<lambda>hi.
                  if - excess - 1 > hi then Inl ExitFailure
                  else descend st excess (right_sibling (left_child node))))))"
  by pat_completeness auto
termination
  by (relation "measure (\<lambda>(st, excess, node). (k ^ heigh st - 1) div (k - 1) - node)")
     (auto simp: is_leaf_def left_child_def right_sibling_def k_def)

declare descend.simps [simp del]

text \<open>
  The value of \<^verbatim>\<open>excess\<close> after the assignment of case 2: the sum over the positions of the
  chunk up to \<open>i\<close>, minus the entry of \<^verbatim>\<open>e_prime\<close> for the chunk before.
\<close>

definition case2_excess :: "rmm \<Rightarrow> BIT_ARRAY \<Rightarrow> nat \<Rightarrow> error + int" where
  "case2_excess st B i =
     (let chunk = i div s
      in and_then (prev_excess_loop B [chunk * s..<i + 1] 0) (\<lambda>prev_excess.
           if chunk = 0 then Inr prev_excess
           else and_then (rd (e_prime st) (chunk - 1)) (\<lambda>e. Inr (int8_t (- e + prev_excess)))))"

text \<open>
  The value of \<^verbatim>\<open>excess\<close> after the assignment of case 3, for the chunk of the leaf at which
  the way down has ended; for the chunk 0 the entry \<^verbatim>\<open>e_prime[-1]\<close> is read.
\<close>

definition case3_excess :: "rmm \<Rightarrow> nat \<Rightarrow> int \<Rightarrow> error + int" where
  "case3_excess st chunk excess =
     (if chunk = 0 then Inl OutOfBounds
      else and_then (rd (e_prime st) (chunk - 1)) (\<lambda>e. Inr (int8_t (- e + excess))))"

definition fwd_search :: "nat \<Rightarrow> rmm \<Rightarrow> BIT_ARRAY \<Rightarrow> nat \<Rightarrow> int \<Rightarrow> error + int" where
  "fwd_search W st B i d =
     (let chunk = i div s
      in and_then (leaves_check W B i (int8_t d)) (\<lambda>output.
           if output > int i then Inr output
           else
             and_then (case2_excess st B i) (\<lambda>excess.
             and_then (sibling_scan W B st chunk excess [chunk mod k + 1..<k]) (\<lambda>r.
               case r of Some output \<Rightarrow> Inr output
               | None \<Rightarrow>
                   and_then (climb st excess (k ^ heigh st - 1 + k - 1)) (\<lambda>node.
                     if \<not> is_root node then
                       and_then (descend st excess node) (\<lambda>leaf.
                         let chunk' = leaf - (k ^ heigh st - 1)
                         in and_then (case3_excess st chunk' excess) (\<lambda>excess'.
                              leaves_check W B (s * chunk') excess'))
                     else Inl NoReturnValue)))))"

definition find_close :: "nat \<Rightarrow> rmm \<Rightarrow> BIT_ARRAY \<Rightarrow> nat \<Rightarrow> error + int" where
  "find_close W st B i = fwd_search W st B i (- 1)"

section \<open>Reference notions of the specification\<close>

text \<open>
  The excess by a naive sequential scan: \<open>excess_before B m\<close> is the number of opening
  minus the number of closing parentheses among the positions below \<open>m\<close>, and
  \<open>excess B i\<close> is the same count over the positions up to and including \<open>i\<close>.
\<close>

primrec excess_before :: "BIT_ARRAY \<Rightarrow> nat \<Rightarrow> int" where
  "excess_before B 0 = 0"
| "excess_before B (Suc m) = excess_before B m + (if bit_at B m then 1 else - 1)"

definition excess :: "BIT_ARRAY \<Rightarrow> nat \<Rightarrow> int" where
  "excess B i = excess_before B (Suc i)"

text \<open>The sum of \<^verbatim>\<open>1-2*bit\<close> over a list of positions, in unbounded integers.\<close>

definition step_sum :: "BIT_ARRAY \<Rightarrow> nat list \<Rightarrow> int" where
  "step_sum B js = (\<Sum>j\<leftarrow>js. 1 - 2 * (if bit_at B j then 1 else 0))"

text \<open>
  The sum of the table entries \<^verbatim>\<open>word_sum\<close> over the bytes that \<^verbatim>\<open>leaves_check\<close> fetches at a
  list of positions, and the amount by which the three loops of \<^verbatim>\<open>leaves_check\<close> and the
  adjustments between them move the running excess when no loop returns, both in
  unbounded integers.
\<close>

definition byte_sum :: "nat \<Rightarrow> BIT_ARRAY \<Rightarrow> nat list \<Rightarrow> int" where
  "byte_sum W B js = (\<Sum>j\<leftarrow>js. case get_byte W B j of Inr w \<Rightarrow> word_sum w | Inl e \<Rightarrow> 0)"


text \<open>
  The matching parenthesis by a naive scan with a depth counter: the first position
  after \<open>i\<close> at which the depth, 1 just after \<open>i\<close>, comes back to 0.
\<close>

fun match_scan :: "BIT_ARRAY \<Rightarrow> nat list \<Rightarrow> int \<Rightarrow> nat option" where
  "match_scan B [] depth = None"
| "match_scan B (j # js) depth =
     (let d = depth + (if bit_at B j then 1 else - 1)
      in if d = 0 then Some j else match_scan B js d)"

definition naive_close :: "BIT_ARRAY \<Rightarrow> nat \<Rightarrow> nat option" where
  "naive_close B i = match_scan B [i + 1..<num_of_bits B] 1"

text \<open>Well-formed balanced parentheses: the excess never goes below 0 and ends at 0.\<close>

definition well_formed :: "BIT_ARRAY \<Rightarrow> bool" where
  "well_formed B \<longleftrightarrow>
     excess_before B (num_of_bits B) = 0 \<and> (\<forall>i<num_of_bits B. 0 \<le> excess B i)"

section \<open>Example inputs\<close>

text \<open>\<open>B_pairs\<close> is \<^verbatim>\<open>()\<close> repeated 256 times; \<open>B_nest\<close> is 256 opening parentheses followed
  by 256 closing ones; \<open>B_odd\<close> is \<^verbatim>\<open>()\<close> repeated 257 times, which makes three chunks;
  \<open>B_deep\<close> is 32768 opening parentheses followed by 32768 closing ones, and \<open>B_wide\<close> is
  512 opening parentheses followed by 512 closing ones.\<close>

definition B_pairs :: BIT_ARRAY where
  "B_pairs = \<lparr>num_of_bits = 512, bit_at = even\<rparr>"

definition B_nest :: BIT_ARRAY where
  "B_nest = \<lparr>num_of_bits = 512, bit_at = (\<lambda>i. i < 256)\<rparr>"

definition B_odd :: BIT_ARRAY where
  "B_odd = \<lparr>num_of_bits = 514, bit_at = even\<rparr>"



definition st_nest :: rmm where
  "st_nest = \<lparr>e_prime = [256, 0], m_prime = [0, 1, 0], M_prime = [256, 256, 255],
               n_prime = [1, 1, 1], heigh = 1\<rparr>"

section \<open>Notions used in the proofs\<close>

text \<open>The construction raises no error but an access out of bounds.\<close>

definition oob_only :: "error + 'a \<Rightarrow> bool" where
  "oob_only r = (\<forall>e. r = Inl e \<longrightarrow> e = OutOfBounds)"




definition num_chunks :: "nat \<Rightarrow> nat" where
  "num_chunks n = ceil_div n s"










section \<open>Basic facts about the error monad and the loops\<close>

lemma and_then_Inr [simp]: "and_then (Inr v) f = f v"
  by (simp add: and_then_def)

lemma and_then_Inl [simp]: "and_then (Inl e) f = Inl e"
  by (simp add: and_then_def)

lemma and_then_return [simp]: "and_then m Inr = m"
  by (cases m) simp_all

lemma and_then_weak_cong: "m = m' \<Longrightarrow> and_then m f = and_then m' f"
  by simp


lemma for_loop_Nil_fun [simp]: "for_loop [] body = Inr"
  by (rule ext) simp

lemma for_loop_single [simp]: "for_loop [i] body = body i"
  by (rule ext) simp

lemma for_loop_append:
  "for_loop (xs @ ys) body x = and_then (for_loop xs body x) (for_loop ys body)"
proof (induction xs arbitrary: x)
  case Nil
  show ?case by simp
next
  case (Cons i xs)
  show ?case by (cases "body i x") (simp_all add: Cons.IH)
qed

lemma for_loop_upt_step:
  "lo < hi \<Longrightarrow> for_loop [lo..<hi] body x = and_then (body lo x) (for_loop [Suc lo..<hi] body)"
  by (simp add: upt_conv_Cons)

lemma for_loop_upt_done: "\<not> lo < hi \<Longrightarrow> for_loop [lo..<hi] body x = Inr x"
  by simp

lemma for_loop_rev_step:
  "lo < hi \<Longrightarrow> for_loop (rev [lo..<hi]) body x =
     and_then (body (hi - 1) x) (for_loop (rev [lo..<hi - 1]) body)"
  by (cases hi) simp_all

lemma for_loop_rev_done: "\<not> lo < hi \<Longrightarrow> for_loop (rev [lo..<hi]) body x = Inr x"
  by simp

lemma ceil_log_step: "1 < x \<Longrightarrow> ceil_log x = Suc (ceil_log ((x + 1) div 2))"
  by (simp add: ceil_log.simps)

lemma ceil_log_done: "x \<le> 1 \<Longrightarrow> ceil_log x = 0"
  by (simp add: ceil_log.simps)

lemma replicate_numeral_eval: "replicate (numeral v) x = x # replicate (pred_numeral v) x"
  by (simp add: numeral_eq_Suc)

subsection \<open>The narrowing conversions\<close>

lemma int16_t_id: "- 32768 \<le> x \<Longrightarrow> x \<le> 32767 \<Longrightarrow> int16_t x = x"
  by (simp add: int16_t_def)




lemma int8_t_idem_add: "int8_t (int8_t x + y) = int8_t (x + y)"
proof -
  have "(int8_t x + y + 128) mod 256 = ((x + 128) mod 256 + y) mod 256"
    by (simp add: int8_t_def)
  also have "\<dots> = (x + 128 + y) mod 256"
    by (rule mod_add_left_eq)
  finally have "(int8_t x + y + 128) mod 256 = (x + 128 + y) mod 256" .
  moreover have "x + 128 + y = x + y + 128" by simp
  ultimately show ?thesis
    by (simp add: int8_t_def)
qed

lemma int8_t_idem [simp]: "int8_t (int8_t x) = int8_t x"
  using int8_t_idem_add[of x 0] by simp

section \<open>Which errors the construction can raise\<close>

lemma oob_only_Inr [simp]: "oob_only (Inr x)" by (simp add: oob_only_def)
lemma oob_only_Inl [simp]: "oob_only (Inl e) \<longleftrightarrow> e = OutOfBounds" by (auto simp add: oob_only_def)

lemma oob_only_and_then:
  "oob_only m \<Longrightarrow> (\<And>x. oob_only (f x)) \<Longrightarrow> oob_only (and_then m f)"
  by (cases m) auto

lemma oob_only_for_loop:
  "(\<And>i x. oob_only (body i x)) \<Longrightarrow> oob_only (for_loop xs body x)"
  by (induction xs arbitrary: x) (auto intro: oob_only_and_then)

lemma oob_only_rd [simp]: "oob_only (rd a i)" by (simp add: rd_def)
lemma oob_only_wr [simp]: "oob_only (wr a i v)" by (simp add: wr_def)
lemma oob_only_get_bit [simp]: "oob_only (bit_array_get_bit B i)" by (simp add: bit_array_get_bit_def)

lemma oob_only_if: "oob_only a \<Longrightarrow> oob_only b \<Longrightarrow> oob_only (if c then a else b)" by simp

lemmas oob_intros = oob_only_and_then oob_only_for_loop oob_only_if

lemma oob_only_symbol_step: "oob_only (symbol_step B l j x)"
  by (cases x) (auto simp: Let_def intro!: oob_intros)

lemma oob_only_chunk_step: "oob_only (chunk_step B n C p cpt off t cl c x)"
proof -
  obtain mn mx pe st where x: "x = ((mn, mx, pe), st)"
    by (metis prod.exhaust)
  show ?thesis
    unfolding x chunk_step.simps Let_def symbol_loop_def
    by (intro oob_intros oob_only_symbol_step) (auto split: prod.splits intro!: oob_intros)
qed

lemma oob_only_thread_step: "oob_only (thread_step B n C p cpt off t st)"
  by (auto simp: thread_step_def Let_def split: prod.splits intro!: oob_intros oob_only_chunk_step)

lemma oob_only_boundary_step: "oob_only (boundary_step cpt t st)"
  by (auto simp: boundary_step_def intro!: oob_intros)

lemma oob_only_broadcast_step: "oob_only (broadcast_step p cpt off t c st)"
  by (auto simp: broadcast_step_def Let_def intro!: oob_intros)

lemma oob_only_broadcast_thread: "oob_only (broadcast_thread p cpt off t st)"
  by (auto simp: broadcast_thread_def intro!: oob_intros oob_only_broadcast_step)

lemma oob_only_child_step: "oob_only (child_step ic pos l c st)"
  by (auto simp: child_step_def intro!: oob_intros)

lemma oob_only_node_fill: "oob_only (node_fill ic n pos st)"
  by (auto simp: node_fill_def Let_def intro!: oob_intros oob_only_child_step)

lemma oob_only_subtree_fill: "oob_only (subtree_fill n h pl t st)"
  by (auto simp: subtree_fill_def subtree_level_def Let_def intro!: oob_intros oob_only_node_fill)

lemma oob_only_top_level: "oob_only (top_level n l st)"
  by (auto simp: top_level_def Let_def intro!: oob_intros oob_only_node_fill)

lemma oob_only_st_create: "s < n \<Longrightarrow> oob_only (st_create B n p)"
  by (auto simp: st_create_def st_create_leaves_def st_create_internal_def Let_def
           intro!: oob_intros oob_only_thread_step oob_only_boundary_step
                   oob_only_broadcast_thread oob_only_subtree_fill oob_only_top_level)

section \<open>The symbol loop on uniform runs of parentheses\<close>

text \<open>
  Closed forms of the loop over the symbols of a chunk when the chunk consists of
  opening parentheses only, of closing parentheses only, or of the pattern \<^verbatim>\<open>()\<close>
  repeated. They turn the construction on the example inputs into a short computation.
\<close>

lemma symbol_loop_snoc:
  "l \<le> u \<Longrightarrow> symbol_loop B l (Suc u) x = and_then (symbol_loop B l u x) (symbol_step B l u)"
  by (simp add: symbol_loop_def for_loop_append)

lemma symbol_loop_empty: "u \<le> l \<Longrightarrow> symbol_loop B l u x = Inr x"
  by (simp add: symbol_loop_def)

lemma symbol_loop_opens:
  assumes bits: "\<forall>j. l \<le> j \<and> j < u \<longrightarrow> bit_at B j"
    and len: "u \<le> num_of_bits B" and lu: "l < u"
    and lo: "- 32768 \<le> pe" and hi: "pe + int (u - l) \<le> 32767"
  shows "symbol_loop B l u (mn, mx, pe, nm) = Inr (pe + 1, pe + int (u - l), pe + int (u - l), 1)"
proof -
  from lu have "Suc l \<le> u" by simp
  then show ?thesis using bits len hi
  proof (induction u rule: dec_induct)
    case base
    then show ?case using lo
      by (simp add: symbol_loop_snoc symbol_loop_empty bit_array_get_bit_def int16_t_id Let_def)
  next
    case (step u)
    then have IH: "symbol_loop B l u (mn, mx, pe, nm) = Inr (pe + 1, pe + int (u - l), pe + int (u - l), 1)"
      by simp
    from step have "l < u" "bit_at B u" "u < num_of_bits B" by auto
    moreover have "int (Suc u - l) = int (u - l) + 1" using \<open>l < u\<close> by simp
    ultimately show ?case using step.prems(3) lo
      by (simp add: symbol_loop_snoc IH bit_array_get_bit_def int16_t_id Let_def)
  qed
qed

lemma symbol_loop_closes:
  assumes bits: "\<forall>j. l \<le> j \<and> j < u \<longrightarrow> \<not> bit_at B j"
    and len: "u \<le> num_of_bits B" and lu: "l < u"
    and hi: "pe \<le> 32767" and lo: "- 32768 \<le> pe - int (u - l)"
  shows "symbol_loop B l u (mn, mx, pe, nm) = Inr (pe - int (u - l), pe - 1, pe - int (u - l), 1)"
proof -
  from lu have "Suc l \<le> u" by simp
  then show ?thesis using bits len lo
  proof (induction u rule: dec_induct)
    case base
    then show ?case using hi
      by (simp add: symbol_loop_snoc symbol_loop_empty bit_array_get_bit_def int16_t_id Let_def)
  next
    case (step u)
    then have IH: "symbol_loop B l u (mn, mx, pe, nm) = Inr (pe - int (u - l), pe - 1, pe - int (u - l), 1)"
      by simp
    from step have "l < u" "\<not> bit_at B u" "u < num_of_bits B" by auto
    moreover have "int (Suc u - l) = int (u - l) + 1" using \<open>l < u\<close> by simp
    ultimately show ?case using step.prems(3) hi
      by (simp add: symbol_loop_snoc IH bit_array_get_bit_def int16_t_id Let_def)
  qed
qed

lemma symbol_loop_pairs:
  assumes bits: "\<forall>j. l \<le> j \<and> j < l + 2 * m \<longrightarrow> bit_at B j = even (j - l)"
    and len: "l + 2 * m \<le> num_of_bits B" and m: "0 < m" "m \<le> 32767"
    and lo: "- 32768 \<le> pe" and hi: "pe < 32767"
  shows "symbol_loop B l (l + 2 * m) (mn, mx, pe, nm) = Inr (pe, pe + 1, pe, int m)"
proof -
  from m(1) have "Suc 0 \<le> m" by simp
  then show ?thesis using bits len m(2)
  proof (induction m rule: dec_induct)
    case base
    have "bit_at B l" "\<not> bit_at B (Suc l)" using base.prems(1) by auto
    moreover have "l + 2 * Suc 0 = Suc (Suc l)" by simp
    ultimately show ?case using base.prems(2) lo hi
      by (simp add: symbol_loop_snoc symbol_loop_empty bit_array_get_bit_def int16_t_id Let_def)
  next
    case (step m)
    then have IH: "symbol_loop B l (l + 2 * m) (mn, mx, pe, nm) = Inr (pe, pe + 1, pe, int m)"
      by simp
    have "bit_at B (l + 2 * m)" "\<not> bit_at B (Suc (l + 2 * m))" using step.prems(1) by auto
    moreover have "l + 2 * Suc m = Suc (Suc (l + 2 * m))" by simp
    ultimately show ?case using step.prems(2,3) lo hi step.hyps
      by (simp add: symbol_loop_snoc IH bit_array_get_bit_def int16_t_id Let_def)
  qed
qed

lemma symbol_loop_pairs':
  assumes "\<forall>j. l \<le> j \<and> j < u \<longrightarrow> bit_at B j = even (j - l)"
    and "u \<le> num_of_bits B" "l < u" "even (u - l)" "u - l \<le> 65534"
    and "- 32768 \<le> pe" "pe < 32767"
  shows "symbol_loop B l u (mn, mx, pe, nm) = Inr (pe, pe + 1, pe, int ((u - l) div 2))"
proof -
  obtain m where m: "u - l = 2 * m" using assms(4) by (elim evenE)
  with assms(3) have u: "u = l + 2 * m" by simp
  show ?thesis unfolding u using assms m
    by (subst symbol_loop_pairs) auto
qed

lemmas eval_loops = replicate_numeral_eval for_loop_rev_step for_loop_rev_done
  for_loop_upt_step for_loop_upt_done ceil_log_step ceil_log_done

lemmas eval_create = st_create_def st_create_leaves_def st_create_internal_def thread_step_def boundary_step_def broadcast_thread_def
  broadcast_step_def subtree_fill_def subtree_level_def top_level_def node_fill_def child_step_def
  rd_def wr_def s_def k_def ceil_div_def Let_def int16_t_def

lemmas eval_runs = symbol_loop_opens symbol_loop_closes symbol_loop_pairs'

section \<open>The construction on the example inputs\<close>

lemma st_create_pairs_1:
  "st_create B_pairs 512 1 =
     Inr \<lparr>e_prime = [0, 0], m_prime = [0, 0, 0], M_prime = [1, 1, 1],
          n_prime = [129, 128, 128], heigh = 1\<rparr>"
  by (simp add: eval_loops eval_create eval_runs B_pairs_def del: upt_rec_numeral upt.simps
      cong: and_then_weak_cong let_weak_cong)

lemma st_create_pairs_2:
  "st_create B_pairs 512 2 =
     Inr \<lparr>e_prime = [0, 0], m_prime = [0, 0, 0], M_prime = [1, 1, 1],
          n_prime = [1, 128, 128], heigh = 1\<rparr>"
  by (simp add: eval_loops eval_create eval_runs B_pairs_def del: upt_rec_numeral upt.simps
      cong: and_then_weak_cong let_weak_cong)

lemma st_create_nest_1: "st_create B_nest 512 1 = Inr st_nest"
  by (simp add: eval_loops eval_create eval_runs B_nest_def st_nest_def
      del: upt_rec_numeral upt.simps cong: and_then_weak_cong let_weak_cong)

lemma st_create_odd_1: "st_create B_odd 514 1 = Inl OutOfBounds"
  by (simp add: eval_loops eval_create eval_runs B_odd_def del: upt_rec_numeral upt.simps
      cong: and_then_weak_cong let_weak_cong)

section \<open>The \<^verbatim>\<open>int8_t\<close> loops of the query path\<close>

lemma step_sum_Nil [simp]: "step_sum B [] = 0"
  by (simp add: step_sum_def)

lemma step_sum_Cons [simp]:
  "step_sum B (j # js) = (1 - 2 * (if bit_at B j then 1 else 0)) + step_sum B js"
  by (simp add: step_sum_def)

lemma step_sum_append [simp]: "step_sum B (xs @ ys) = step_sum B xs + step_sum B ys"
  by (simp add: step_sum_def)

lemma prev_excess_loop_eq:
  "\<forall>j\<in>set js. j < num_of_bits B \<Longrightarrow> int8_t e = e \<Longrightarrow>
     prev_excess_loop B js e = Inr (int8_t (e + step_sum B js))"
proof (induction js arbitrary: e)
  case Nil
  then show ?case by simp
next
  case (Cons j js)
  from Cons.prems have "j < num_of_bits B" by simp
  then have "prev_excess_loop B (j # js) e =
      prev_excess_loop B js (int8_t (e + (1 - 2 * (if bit_at B j then 1 else 0))))"
    by (simp add: bit_array_get_bit_def)
  also have "\<dots> = Inr (int8_t (int8_t (e + (1 - 2 * (if bit_at B j then 1 else 0))) + step_sum B js))"
    using Cons.prems by (intro Cons.IH) simp_all
  also have "\<dots> = Inr (int8_t (e + step_sum B (j # js)))"
    by (simp add: int8_t_idem_add add.assoc)
  finally show ?case .
qed

lemma step_sum_opens:
  "\<forall>j. lo \<le> j \<and> j < hi \<longrightarrow> bit_at B j \<Longrightarrow> step_sum B [lo..<hi] = - int (hi - lo)"
  by (induction hi) (auto simp: Suc_diff_le)

lemma step_sum_closes:
  "\<forall>j. lo \<le> j \<and> j < hi \<longrightarrow> \<not> bit_at B j \<Longrightarrow> step_sum B [lo..<hi] = int (hi - lo)"
  by (induction hi) (auto simp: Suc_diff_le)

section \<open>Unfolding the query on concrete inputs\<close>

lemma climb_root: "is_root node \<Longrightarrow> climb st e node = Inr node"
  by (simp add: climb.simps)

lemma climb_left:
  "\<not> is_root node \<Longrightarrow> is_left_child node \<Longrightarrow>
   climb st e node =
     and_then (in_range st (right_sibling node) e) (\<lambda>hit.
       if hit then Inr (right_sibling node) else climb st e (parent (right_sibling node)))"
  by (simp add: climb.simps)

lemma climb_right:
  "\<not> is_root node \<Longrightarrow> \<not> is_left_child node \<Longrightarrow> climb st e node = climb st e (parent node)"
  by (simp add: climb.simps)

lemma bit_scan_upt_step:
  "lo < hi \<Longrightarrow> bit_scan B [lo..<hi] e =
     and_then (bit_array_get_bit B lo) (\<lambda>b.
       let e' = int8_t (e + (1 - 2 * b))
       in if e' = 0 then Inr (Found lo) else bit_scan B [Suc lo..<hi] e')"
  by (simp add: upt_conv_Cons)

lemma sibling_scan_upt_step:
  "lo < hi \<Longrightarrow> sibling_scan W B st chunk e [lo..<hi] =
     and_then (in_range st (chunk + lo) e) (\<lambda>hit.
       if hit then
         and_then (leaves_check W B (s * (chunk + lo)) e) (\<lambda>output.
           if output > int (s * (chunk + lo)) then Inr (Some output)
           else sibling_scan W B st chunk e [Suc lo..<hi])
       else sibling_scan W B st chunk e [Suc lo..<hi])"
  by (simp add: upt_conv_Cons)

lemmas eval_query = sibling_scan_upt_step find_close_def fwd_search_def case2_excess_def
  case3_excess_def leaves_check_def leaves_scan_def in_range_def rd_def
  is_root_def is_left_child_def parent_def right_sibling_def left_child_def is_leaf_def
  climb_root climb_left climb_right bit_scan_upt_step bit_array_get_bit_def
  prev_excess_loop_eq step_sum_opens step_sum_closes
  s_def k_def Let_def int8_t_def


lemma match_scan_upt_step:
  "lo < hi \<Longrightarrow> match_scan B [lo..<hi] depth =
     (let d = depth + (if bit_at B lo then 1 else - 1)
      in if d = 0 then Some lo else match_scan B [Suc lo..<hi] d)"
  by (simp add: upt_conv_Cons)


lemma excess_before_pairs: "excess_before B_pairs m = (if even m then 0 else 1)"
  by (induction m) (auto simp: B_pairs_def)

lemma well_formed_pairs: "well_formed B_pairs"
  by (simp add: well_formed_def excess_def excess_before_pairs) (simp add: B_pairs_def)


section \<open>The running excess of \<^verbatim>\<open>leaves_check\<close> and the seeds of \<^verbatim>\<open>fwd_search\<close>\<close>



lemma byte_sum_Nil [simp]: "byte_sum W B [] = 0"
  by (simp add: byte_sum_def)




















section \<open>The excess array after a successful construction\<close>

text \<open>
  Rules for loops that returned normally, the effect of each step of the steps 2.1 and
  2.2 on the arrays, the partition that a successful run implies, and from these the
  content of \<^verbatim>\<open>e_prime\<close>: the excess at the end of each chunk, reduced to \<^verbatim>\<open>int16_t\<close>.
\<close>

lemma for_loop_upt_snoc:
  "lo \<le> hi \<Longrightarrow> for_loop [lo..<Suc hi] body x = and_then (for_loop [lo..<hi] body x) (body hi)"
  by (simp add: for_loop_append)




lemma int16_t_idem_add: "int16_t (int16_t x + y) = int16_t (x + y)"
proof -
  have "(int16_t x + y + 32768) mod 65536 = ((x + 32768) mod 65536 + y) mod 65536"
    by (simp add: int16_t_def)
  also have "\<dots> = (x + 32768 + y) mod 65536"
    by (rule mod_add_left_eq)
  finally have "(int16_t x + y + 32768) mod 65536 = (x + 32768 + y) mod 65536" .
  moreover have "x + 32768 + y = x + y + 32768" by simp
  ultimately show ?thesis
    by (simp add: int16_t_def)
qed

lemma int16_t_idem [simp]: "int16_t (int16_t x) = int16_t x"
  using int16_t_idem_add[of x 0] by simp


lemma int16_t_range: "- 32768 \<le> int16_t x \<and> int16_t x \<le> 32767"
  by (simp add: int16_t_def)















































































section \<open>The size check of \<^verbatim>\<open>st_create\<close>\<close>

text \<open>
  C6. \<^verbatim>\<open>st_create(B, n)\<close> reports the input-size error and stops exactly when
  \<open>n \<le> s\<close>, that is when the length is at most the chunk size 256; for every longer
  input it goes past the check into the construction of the arrays.
\<close>

theorem st_create_too_small_iff:
  "st_create B n p = Inl InputTooSmall \<longleftrightarrow> n \<le> 256"
proof
  assume "st_create B n p = Inl InputTooSmall"
  show "n \<le> 256"
  proof (rule ccontr)
    assume "\<not> n \<le> 256"
    then have "s < n" by (simp add: s_def)
    then have "oob_only (st_create B n p)" by (rule oob_only_st_create)
    with \<open>st_create B n p = Inl InputTooSmall\<close> show False by simp
  qed
next
  assume "n \<le> 256"
  then show "st_create B n p = Inl InputTooSmall" by (simp add: st_create_def s_def)
qed

section \<open>The arithmetic of the query path\<close>



section \<open>Where the code departs from the specification\<close>

subsection \<open>The count of minima at internal nodes\<close>

text \<open>
  C2. For \<^verbatim>\<open>()\<close> repeated 256 times and one worker, both leaves have minimum 0,
  attained 128 times each, and the root gets the minimum 0 and the maximum 1 of its
  children. The count at the root is 129: the count of the first child plus one for
  the second child, not the sum 256 of the counts of the children that attain the
  minimum.
\<close>

theorem root_count_pairs:
  "map_sum id (\<lambda>st. (m_prime st, M_prime st, n_prime st)) (st_create B_pairs 512 1)
     = Inr ([0, 0, 0], [1, 1, 1], [129, 128, 128])
   \<and> (129 :: int) \<noteq> 128 + 128"
  using st_create_pairs_1 by simp

subsection \<open>The worker count\<close>

text \<open>
  C9. The array \<^verbatim>\<open>n_prime\<close> depends on the number of workers. For \<^verbatim>\<open>()\<close> repeated 256
  times the root count is 129 with one worker and 1 with two workers: with two
  workers the root belongs to the top of the tree, whose loop does not copy the count
  of the first child.
\<close>

theorem worker_count_changes_counts:
  "map_sum id n_prime (st_create B_pairs 512 1) = Inr [129, 128, 128]
   \<and> map_sum id n_prime (st_create B_pairs 512 2) = Inr [1, 128, 128]
   \<and> st_create B_pairs 512 1 \<noteq> st_create B_pairs 512 2"
  using st_create_pairs_1 st_create_pairs_2 by simp

subsection \<open>Children beyond the leaves\<close>

text \<open>
  C8. For an input of 514 parentheses there are three chunks, and three internal nodes
  in front of the three leaves, so the arrays have six cells. The children of node 2
  are the cells 5 and 6. The loop over the children stops at \<^verbatim>\<open>child < n\<close> with
  \<open>n = 514\<close>, so cell 6, which lies beyond the arrays, is read.
\<close>

theorem fill_reads_beyond_leaves:
  "st_create B_odd 514 1 = Inl OutOfBounds
   \<and> node_fill True 514 2
        \<lparr>e_prime = [0, 0, 0], m_prime = [0, 0, 0, 0, 0, 0], M_prime = [0, 1, 0, 1, 1, 1],
         n_prime = [0, 129, 0, 128, 128, 1], heigh = 2\<rparr> = Inl OutOfBounds"
  using st_create_odd_1
  by (simp add: eval_loops node_fill_def child_step_def rd_def wr_def k_def Let_def int16_t_def
        del: upt_rec_numeral upt.simps cong: and_then_weak_cong let_weak_cong)

subsection \<open>\<^verbatim>\<open>find_close\<close> across a chunk boundary\<close>

text \<open>
  C1. For 256 opening parentheses followed by 256 closing ones, the parenthesis at
  position 255 is closed at position 256, in the next chunk. \<^verbatim>\<open>find_close\<close> does not
  return 256: the chunk of 255 has no answer, the seed of case 2 wraps to 0, the
  sibling test reads the entry of the chunk's own leaf and fails, the climb of case 3
  starts at the right child of the root and ends at the root, and the function ends
  without a \<^verbatim>\<open>return\<close>. The byte loop of \<^verbatim>\<open>leaves_check\<close> is not entered, so the outcome
  does not depend on the width of a word.
\<close>

theorem find_close_nest_no_result:
  "st_create B_nest 512 1 = Inr st_nest
   \<and> naive_close B_nest 255 = Some 256
   \<and> find_close 64 st_nest B_nest 255 = Inl NoReturnValue
   \<and> find_close 32 st_nest B_nest 255 = Inl NoReturnValue"
proof -
  have "naive_close B_nest 255 = Some 256"
    by (simp add: naive_close_def match_scan_upt_step B_nest_def
        del: upt_rec_numeral upt.simps)
  moreover have "find_close 64 st_nest B_nest 255 = Inl NoReturnValue"
    by (simp add: eval_query st_nest_def B_nest_def del: upt_rec_numeral upt.simps
        cong: and_then_weak_cong let_weak_cong)
  moreover have "find_close 32 st_nest B_nest 255 = Inl NoReturnValue"
    by (simp add: eval_query st_nest_def B_nest_def del: upt_rec_numeral upt.simps
        cong: and_then_weak_cong let_weak_cong)
  ultimately show ?thesis
    using st_create_nest_1 by simp
qed

subsection \<open>The sibling test of case 2\<close>

text \<open>
  C4. On the same input, with the chunk 0 and the seed \<open>-1\<close> of position 0, the target
  excess is 0. The leaf of the sibling chunk 1 is the cell 2, with the interval
  \<open>[0, 255]\<close> that contains the target. The loop of case 2 reads the cell
  \<^verbatim>\<open>chunk+j\<close>, which is the cell 1, the leaf of chunk 0 itself with the interval
  \<open>[1, 256]\<close>; the test fails and the sibling is not scanned.
\<close>

theorem sibling_test_reads_other_cell:
  "st_create B_nest 512 1 = Inr st_nest
   \<and> sibling_scan 64 B_nest st_nest 0 (- 1) [0 mod k + 1..<k] = Inr None
   \<and> in_range st_nest (0 + 1) (- 1) = Inr False
   \<and> in_range st_nest ((k ^ heigh st_nest - 1) div (k - 1) + 0 + 1) (- 1) = Inr True"
proof -
  have "sibling_scan 64 B_nest st_nest 0 (- 1) [0 mod k + 1..<k] = Inr None"
    by (simp add: eval_query st_nest_def B_nest_def del: upt_rec_numeral upt.simps
        cong: and_then_weak_cong let_weak_cong)
  moreover have "in_range st_nest (0 + 1) (- 1) = Inr False"
    by (simp add: in_range_def rd_def st_nest_def)
  moreover have "in_range st_nest ((k ^ heigh st_nest - 1) div (k - 1) + 0 + 1) (- 1) = Inr True"
    by (simp add: in_range_def rd_def st_nest_def k_def)
  ultimately show ?thesis
    using st_create_nest_1 by simp
qed

subsection \<open>A query without an answer\<close>

text \<open>
  C5. On the same input no position follows 511. \<^verbatim>\<open>fwd_search(B, 511, -1)\<close> finds
  nothing in the chunk, has no right sibling to test, climbs from the right child of
  the root to the root and ends without a \<^verbatim>\<open>return\<close>: no sentinel is returned.
\<close>

theorem fwd_search_no_sentinel:
  "st_create B_nest 512 1 = Inr st_nest
   \<and> naive_close B_nest 511 = None
   \<and> fwd_search 64 st_nest B_nest 511 (- 1) = Inl NoReturnValue"
proof -
  have "naive_close B_nest 511 = None"
    by (simp add: naive_close_def B_nest_def)
  moreover have "fwd_search 64 st_nest B_nest 511 (- 1) = Inl NoReturnValue"
    by (simp add: eval_query st_nest_def B_nest_def del: upt_rec_numeral upt.simps
        cong: and_then_weak_cong let_weak_cong)
  ultimately show ?thesis
    using st_create_nest_1 by simp
qed

section \<open>The root of the tree\<close>

text \<open>
  C7, as stated, fails: \<^verbatim>\<open>()\<close> repeated 256 times is well formed and has length 512, and
  the maximum at the root is 1, the depth of the sequence, not \<open>n / 2 = 256\<close>.
\<close>

theorem root_max_pairs_counterexample:
  "well_formed B_pairs \<and> num_of_bits B_pairs = 512
   \<and> map_sum id (\<lambda>st. M_prime st ! 0) (st_create B_pairs 512 1) = Inr 1
   \<and> (1 :: int) \<noteq> 512 div 2"
  using well_formed_pairs st_create_pairs_1 by (simp add: B_pairs_def)

section \<open>The excess at the end of the chunks\<close>




end
